theory Spec2Isabelle
  imports Main
begin

section \<open>TensorIterator.h: data model\<close>

text \<open>
  The header declares the iterator's state and defines inline its accessors, its
  construction calls (\<open>add_output\<close>, \<open>add_input\<close>), its configuration setters and
  the equality of \<open>SplitUntil32Bit::iterator\<close>. Those are embedded here as they are
  written. A C++ data member \<open>name_\<close> is the record field \<open>name_'\<close> (an Isabelle
  constant cannot end in an underscore).

  The types \<open>Tensor\<close>, \<open>ScalarType\<close>, \<open>Device\<close> and \<open>Layout\<close> come from headers that
  are not part of the sources; they are represented by what the header reads of them.
\<close>

text \<open>\<open>ScalarType\<close>: the header only distinguishes \<open>ScalarType::Undefined\<close> from the
  other enumerators, which are represented by their number.\<close>

datatype ScalarType = Undefined | Dtype nat

datatype Device = kCPU | kCUDA

datatype Layout = kStrided | kSparse | kMkldnn

text \<open>A \<open>Tensor\<close> as the header and the planner read it: \<open>defined()\<close>, \<open>layout()\<close>,
  \<open>device()\<close>, \<open>scalar_type()\<close>, \<open>sizes()\<close>, \<open>strides()\<close> (in elements),
  \<open>element_size()\<close> and \<open>data_ptr()\<close>.\<close>

record Tensor =
  t_defined :: bool
  t_layout :: Layout
  t_device :: Device
  t_scalar_type :: ScalarType
  t_sizes :: "int list"
  t_strides :: "int list"
  t_element_size :: int
  t_data_ptr :: int

text \<open>The default-constructed \<open>Tensor()\<close> is undefined.\<close>

definition undefined_Tensor :: Tensor where
  "undefined_Tensor =
     \<lparr>t_defined = False, t_layout = kStrided, t_device = kCPU, t_scalar_type = Undefined,
      t_sizes = [], t_strides = [], t_element_size = 0, t_data_ptr = 0\<rparr>"

text \<open>The arguments of a failed \<open>TORCH_CHECK\<close>, in the order the source passes them.\<close>

datatype msg = Str string | Num int | Lay Layout

text \<open>\<open>TORCH_CHECK\<close>, \<open>TORCH_INTERNAL_ASSERT\<close> and \<open>AT_ASSERT\<close> throw; the exception
  is the \<open>Inl\<close> branch of a result. An index outside a \<open>SmallVector\<close> is undefined
  behaviour in C++ and is a branch of its own.\<close>

datatype error =
    Check_failed "msg list"
  | Internal_assert_failed "msg list"
  | Assert_failed
  | Out_of_bounds

record OperandInfo =
  stride_bytes :: "int list"
  tensor :: Tensor
  original_tensor :: Tensor
  device :: Device
  target_dtype :: ScalarType
  current_dtype :: ScalarType
  data :: "int option"
  is_output :: bool
  is_read_write :: bool

definition is_type_defined :: "OperandInfo \<Rightarrow> bool" where
  "is_type_defined op = (target_dtype op \<noteq> Undefined)"

definition validate :: "OperandInfo \<Rightarrow> error + OperandInfo" where
  "validate op =
     (if \<not> t_defined (tensor op) \<or> t_layout (tensor op) = kStrided then Inr op
      else Inl (Check_failed [Str ''unsupported tensor layout: '', Lay (t_layout (tensor op))]))"

text \<open>\<open>OperandInfo()\<close>: the default member initialisers.\<close>

definition OperandInfo0 :: OperandInfo where
  "OperandInfo0 =
     \<lparr>stride_bytes = [], tensor = undefined_Tensor, original_tensor = undefined_Tensor,
      device = kCPU, target_dtype = Undefined, current_dtype = Undefined, data = None,
      is_output = False, is_read_write = False\<rparr>"

text \<open>\<open>explicit OperandInfo(const Tensor& t)\<close>.\<close>

definition OperandInfo1 :: "Tensor \<Rightarrow> error + OperandInfo" where
  "OperandInfo1 t =
     validate
       (if t_defined t
        then OperandInfo0\<lparr>tensor := t, device := t_device t,
               target_dtype := t_scalar_type t, current_dtype := t_scalar_type t\<rparr>
        else OperandInfo0\<lparr>tensor := t\<rparr>)"

text \<open>\<open>OperandInfo(const Tensor& t, Device device, ScalarType dtype)\<close>.\<close>

definition OperandInfo3 :: "Tensor \<Rightarrow> Device \<Rightarrow> ScalarType \<Rightarrow> error + OperandInfo" where
  "OperandInfo3 t dev dtype =
     validate
       (OperandInfo0\<lparr>tensor := t, device := dev, target_dtype := dtype,
          current_dtype := t_scalar_type t\<rparr>)"

record TensorIterator =
  shape_' :: "int list"
  perm_' :: "int list"
  view_offsets_' :: "int list"
  names_' :: "string list"
  operands_' :: "OperandInfo list"
  num_outputs_' :: nat
  common_dtype_' :: ScalarType
  has_coalesced_dimensions_' :: bool
  accumulate_' :: bool
  resize_outputs_' :: bool
  is_reduction_' :: bool
  allow_cpu_scalars_' :: bool
  final_output_' :: bool
  check_mem_overlap_' :: bool
  all_ops_same_shape_' :: bool
  requires_channels_last_output_' :: bool
  requires_channels_last_3d_output_' :: bool
  static_shape_' :: bool
  check_all_same_dtype_' :: bool
  check_all_same_device_' :: bool
  enforce_safe_casting_to_output_' :: bool
  promote_inputs_to_common_dtype_' :: bool
  cast_common_dtype_to_outputs_' :: bool

text \<open>\<open>TensorIterator() {}\<close>: every member takes its default initialiser.\<close>

definition TensorIterator0 :: TensorIterator where
  "TensorIterator0 =
     \<lparr>shape_' = [], perm_' = [], view_offsets_' = [], names_' = [], operands_' = [],
      num_outputs_' = 0, common_dtype_' = Undefined, has_coalesced_dimensions_' = False,
      accumulate_' = False, resize_outputs_' = True, is_reduction_' = False,
      allow_cpu_scalars_' = False, final_output_' = True, check_mem_overlap_' = False,
      all_ops_same_shape_' = False, requires_channels_last_output_' = False,
      requires_channels_last_3d_output_' = False, static_shape_' = False,
      check_all_same_dtype_' = True, check_all_same_device_' = True,
      enforce_safe_casting_to_output_' = False, promote_inputs_to_common_dtype_' = False,
      cast_common_dtype_to_outputs_' = False\<rparr>"

section \<open>Accessors\<close>

definition ndim :: "TensorIterator \<Rightarrow> nat" where
  "ndim it = length (shape_' it)"

definition ntensors :: "TensorIterator \<Rightarrow> nat" where
  "ntensors it = length (operands_' it)"

definition noutputs :: "TensorIterator \<Rightarrow> nat" where
  "noutputs it = num_outputs_' it"

text \<open>\<open>ninputs\<close> subtracts two \<open>int\<close>s.\<close>

definition ninputs :: "TensorIterator \<Rightarrow> int" where
  "ninputs it = int (ntensors it) - int (noutputs it)"


text \<open>\<open>output(arg)\<close> (here \<open>output'\<close>, as \<open>output\<close> and \<open>input\<close> are Isabelle keywords)
  asserts \<open>arg < num_outputs_\<close> only, then indexes \<open>operands_[arg]\<close>.\<close>

definition output' :: "TensorIterator \<Rightarrow> int \<Rightarrow> error + Tensor" where
  "output' it arg =
     (if \<not> arg < int (num_outputs_' it) then Inl Assert_failed
      else if 0 \<le> arg \<and> nat arg < length (operands_' it)
        then Inr (tensor (operands_' it ! nat arg))
      else Inl Out_of_bounds)"

text \<open>\<open>input(arg)\<close> asserts \<open>arg >= 0 && arg < ntensors() - num_outputs_\<close>, then indexes
  \<open>operands_[num_outputs_ + arg]\<close>.\<close>

definition input' :: "TensorIterator \<Rightarrow> int \<Rightarrow> error + Tensor" where
  "input' it arg =
     (if \<not> (0 \<le> arg \<and> arg < int (ntensors it) - int (num_outputs_' it)) then Inl Assert_failed
      else if num_outputs_' it + nat arg < length (operands_' it)
        then Inr (tensor (operands_' it ! (num_outputs_' it + nat arg)))
      else Inl Out_of_bounds)"

text \<open>\<open>has_contiguous_first_dim\<close> walks the operands and returns at the first one whose
  stride in dimension 0 is not its element size: dimension 0 is the inner, fastest moving
  dimension (as the comment on \<open>loop_t\<close> and \<open>get_inner_strides\<close> have it).
  \<open>elementSize\<close> is declared outside the sources and is a parameter here; reading
  \<open>strides(i)[0]\<close> of an empty stride vector is out of bounds.\<close>

fun first_dim_contiguous :: "(ScalarType \<Rightarrow> int) \<Rightarrow> OperandInfo list \<Rightarrow> error + bool" where
  "first_dim_contiguous elementSize [] = Inr True"
| "first_dim_contiguous elementSize (op # ops) =
     (if stride_bytes op = [] then Inl Out_of_bounds
      else if stride_bytes op ! 0 \<noteq> elementSize (current_dtype op) then Inr False
      else first_dim_contiguous elementSize ops)"

definition has_contiguous_first_dim :: "(ScalarType \<Rightarrow> int) \<Rightarrow> TensorIterator \<Rightarrow> error + bool" where
  "has_contiguous_first_dim elementSize it = first_dim_contiguous elementSize (operands_' it)"

section \<open>Construction\<close>

text \<open>\<open>emplace_back\<close> constructs the operand first: when the constructor throws, neither
  the operand list nor the output count has changed.\<close>

definition add_output :: "Tensor \<Rightarrow> TensorIterator \<Rightarrow> error + TensorIterator" where
  "add_output t it =
     (case OperandInfo1 t of
        Inl e \<Rightarrow> Inl e
      | Inr op \<Rightarrow> Inr (it\<lparr>operands_' := operands_' it @ [op],
                          num_outputs_' := num_outputs_' it + 1\<rparr>))"

definition add_output3 :: "Tensor \<Rightarrow> Device \<Rightarrow> ScalarType \<Rightarrow> TensorIterator \<Rightarrow> error + TensorIterator" where
  "add_output3 t dev dtype it =
     (case OperandInfo3 t dev dtype of
        Inl e \<Rightarrow> Inl e
      | Inr op \<Rightarrow> Inr (it\<lparr>operands_' := operands_' it @ [op],
                          num_outputs_' := num_outputs_' it + 1\<rparr>))"

definition add_input :: "Tensor \<Rightarrow> TensorIterator \<Rightarrow> error + TensorIterator" where
  "add_input t it =
     (case OperandInfo1 t of
        Inl e \<Rightarrow> Inl e
      | Inr op \<Rightarrow> Inr (it\<lparr>operands_' := operands_' it @ [op]\<rparr>))"

definition add_input3 :: "Tensor \<Rightarrow> Device \<Rightarrow> ScalarType \<Rightarrow> TensorIterator \<Rightarrow> error + TensorIterator" where
  "add_input3 t dev dtype it =
     (case OperandInfo3 t dev dtype of
        Inl e \<Rightarrow> Inl e
      | Inr op \<Rightarrow> Inr (it\<lparr>operands_' := operands_' it @ [op]\<rparr>))"

section \<open>Configuration setters\<close>

definition set_check_mem_overlap :: "bool \<Rightarrow> TensorIterator \<Rightarrow> TensorIterator" where
  "set_check_mem_overlap b it = it\<lparr>check_mem_overlap_' := b\<rparr>"

definition check_all_same_dtype :: "bool \<Rightarrow> TensorIterator \<Rightarrow> TensorIterator" where
  "check_all_same_dtype b it = it\<lparr>check_all_same_dtype_' := b\<rparr>"

definition check_all_same_device :: "bool \<Rightarrow> TensorIterator \<Rightarrow> TensorIterator" where
  "check_all_same_device b it = it\<lparr>check_all_same_device_' := b\<rparr>"

definition enforce_safe_casting_to_output :: "bool \<Rightarrow> TensorIterator \<Rightarrow> TensorIterator" where
  "enforce_safe_casting_to_output b it = it\<lparr>enforce_safe_casting_to_output_' := b\<rparr>"

definition promote_inputs_to_common_dtype :: "bool \<Rightarrow> TensorIterator \<Rightarrow> TensorIterator" where
  "promote_inputs_to_common_dtype b it =
     (let it1 = it\<lparr>promote_inputs_to_common_dtype_' := b\<rparr>
      in if b then it1\<lparr>check_all_same_dtype_' := False\<rparr> else it1)"

definition cast_common_dtype_to_outputs :: "bool \<Rightarrow> TensorIterator \<Rightarrow> TensorIterator" where
  "cast_common_dtype_to_outputs b it =
     (let it1 = it\<lparr>cast_common_dtype_to_outputs_' := b\<rparr>
      in if b then it1\<lparr>check_all_same_dtype_' := False\<rparr> else it1)"

definition dont_resize_outputs :: "TensorIterator \<Rightarrow> TensorIterator" where
  "dont_resize_outputs it = it\<lparr>resize_outputs_' := False\<rparr>"

definition declare_static_shape :: "int list \<Rightarrow> TensorIterator \<Rightarrow> error + TensorIterator" where
  "declare_static_shape shape it =
     (if resize_outputs_' it
      then Inl (Check_failed
             [Str ''dont_resize_outputs() must be called before declare_static_shape(...)''])
      else Inr (it\<lparr>shape_' := shape, static_shape_' := True\<rparr>))"

text \<open>The overload with \<open>squash_dim\<close>: the one-argument overload first; an empty shape
  returns before the range check.\<close>

definition declare_static_shape_squash ::
    "int list \<Rightarrow> int \<Rightarrow> TensorIterator \<Rightarrow> error + TensorIterator" where
  "declare_static_shape_squash shape squash_dim it =
     (case declare_static_shape shape it of
        Inl e \<Rightarrow> Inl e
      | Inr it1 \<Rightarrow>
          if length (shape_' it1) = 0 then Inr it1
          else if \<not> (0 \<le> squash_dim \<and> squash_dim < int (length (shape_' it1)))
            then Inl (Check_failed
                   [Str ''squash_dim '', Num squash_dim, Str '' must be in [0, '',
                    Num (int (length (shape_' it1))), Str '').''])
          else Inr (it1\<lparr>shape_' := (shape_' it1)[nat squash_dim := 1]\<rparr>))"

section \<open>Sequences of calls on one iterator\<close>

text \<open>A caller configures an iterator by a sequence of the calls above. An exception
  leaves the sequence at the call that threw.\<close>

datatype call =
    Add_output Tensor
  | Add_output3 Tensor Device ScalarType
  | Add_input Tensor
  | Add_input3 Tensor Device ScalarType
  | Set_check_mem_overlap bool
  | Check_all_same_dtype bool
  | Check_all_same_device bool
  | Enforce_safe_casting_to_output bool
  | Promote_inputs_to_common_dtype bool
  | Cast_common_dtype_to_outputs bool
  | Dont_resize_outputs
  | Declare_static_shape "int list"
  | Declare_static_shape_squash "int list" int

fun apply_call :: "call \<Rightarrow> TensorIterator \<Rightarrow> error + TensorIterator" where
  "apply_call (Add_output t) it = add_output t it"
| "apply_call (Add_output3 t dev dtype) it = add_output3 t dev dtype it"
| "apply_call (Add_input t) it = add_input t it"
| "apply_call (Add_input3 t dev dtype) it = add_input3 t dev dtype it"
| "apply_call (Set_check_mem_overlap b) it = Inr (set_check_mem_overlap b it)"
| "apply_call (Check_all_same_dtype b) it = Inr (check_all_same_dtype b it)"
| "apply_call (Check_all_same_device b) it = Inr (check_all_same_device b it)"
| "apply_call (Enforce_safe_casting_to_output b) it = Inr (enforce_safe_casting_to_output b it)"
| "apply_call (Promote_inputs_to_common_dtype b) it = Inr (promote_inputs_to_common_dtype b it)"
| "apply_call (Cast_common_dtype_to_outputs b) it = Inr (cast_common_dtype_to_outputs b it)"
| "apply_call Dont_resize_outputs it = Inr (dont_resize_outputs it)"
| "apply_call (Declare_static_shape shape) it = declare_static_shape shape it"
| "apply_call (Declare_static_shape_squash shape d) it = declare_static_shape_squash shape d it"

fun run :: "call list \<Rightarrow> TensorIterator \<Rightarrow> error + TensorIterator" where
  "run [] it = Inr it"
| "run (c # cs) it = (case apply_call c it of Inl e \<Rightarrow> Inl e | Inr it1 \<Rightarrow> run cs it1)"

text \<open>The tensors a call sequence registers: as outputs, as inputs, and all of them in
  the order of the calls.\<close>

fun added_outputs :: "call list \<Rightarrow> Tensor list" where
  "added_outputs [] = []"
| "added_outputs (Add_output t # cs) = t # added_outputs cs"
| "added_outputs (Add_output3 t dev dtype # cs) = t # added_outputs cs"
| "added_outputs (c # cs) = added_outputs cs"

fun added_inputs :: "call list \<Rightarrow> Tensor list" where
  "added_inputs [] = []"
| "added_inputs (Add_input t # cs) = t # added_inputs cs"
| "added_inputs (Add_input3 t dev dtype # cs) = t # added_inputs cs"
| "added_inputs (c # cs) = added_inputs cs"

fun added_tensors :: "call list \<Rightarrow> Tensor list" where
  "added_tensors [] = []"
| "added_tensors (Add_output t # cs) = t # added_tensors cs"
| "added_tensors (Add_output3 t dev dtype # cs) = t # added_tensors cs"
| "added_tensors (Add_input t # cs) = t # added_tensors cs"
| "added_tensors (Add_input3 t dev dtype # cs) = t # added_tensors cs"
| "added_tensors (c # cs) = added_tensors cs"

text \<open>No output is added after an input.\<close>

fun outputs_first :: "call list \<Rightarrow> bool" where
  "outputs_first [] = True"
| "outputs_first (Add_input t # cs) = (added_outputs cs = [] \<and> outputs_first cs)"
| "outputs_first (Add_input3 t dev dtype # cs) = (added_outputs cs = [] \<and> outputs_first cs)"
| "outputs_first (c # cs) = outputs_first cs"

text \<open>A defined, strided, one-dimensional CPU tensor of \<open>n\<close> four-byte elements, for
  concrete runs.\<close>

definition vector_tensor :: "int \<Rightarrow> Tensor" where
  "vector_tensor n =
     \<lparr>t_defined = True, t_layout = kStrided, t_device = kCPU, t_scalar_type = Dtype 6,
      t_sizes = [n], t_strides = [1], t_element_size = 4, t_data_ptr = 0\<rparr>"

section \<open>SplitUntil32Bit::iterator\<close>

text \<open>\<open>vec\<close> is a stack of owning pointers, each of which may be null. \<open>operator==\<close>
  compares the addresses of the two iterators, so they live in a store.\<close>

record split_iterator =
  vec :: "TensorIterator option list"

type_synonym addr = nat

type_synonym store = "addr \<Rightarrow> split_iterator"

definition iterator_eq :: "store \<Rightarrow> addr \<Rightarrow> addr \<Rightarrow> bool" where
  "iterator_eq h this other = (this = other \<or> (vec (h this) = [] \<and> vec (h other) = []))"

definition iterator_neq :: "store \<Rightarrow> addr \<Rightarrow> addr \<Rightarrow> bool" where
  "iterator_neq h this other = (\<not> iterator_eq h this other)"

section \<open>The same-dtype check of planning\<close>

text \<open>The faults of the specification's error design (section 7).\<close>

datatype fault = ShapeError | TypeError | DeviceError | LayoutError | OverlapError | ResizeError

text \<open>Modelled from the spec: the same-dtype check belongs to \<open>compute_types\<close>, which the
  header only declares. Section 4.2: if \<open>check_all_same_dtype\<close> is enabled and any two
  operands with defined type disagree, planning fails fatally.\<close>

definition check_dtypes :: "TensorIterator \<Rightarrow> fault + unit" where
  "check_dtypes it =
     (if check_all_same_dtype_' it \<and>
         list_ex (\<lambda>a. list_ex (\<lambda>b. is_type_defined a \<and> is_type_defined b \<and>
                                   target_dtype a \<noteq> target_dtype b) (operands_' it))
           (operands_' it)
      then Inl TypeError else Inr ())"

section \<open>The common dtype computation of planning\<close>









section \<open>Shape and stride planning\<close>

text \<open>The size an operand of sizes \<open>sizes\<close> has in dimension \<open>i\<close> of an \<open>n\<close>-dimensional
  iteration space: dimensions are right-aligned, and a missing leading dimension behaves as
  size 1.\<close>

definition aligned_size :: "nat \<Rightarrow> int list \<Rightarrow> nat \<Rightarrow> int" where
  "aligned_size n sizes i =
     (if i < n - length sizes then 1 else sizes ! (i - (n - length sizes)))"

text \<open>Modelled from the spec: the broadcasting of two shapes is part of \<open>compute_shape\<close>,
  which the header only declares. Section 4.1: dimensions are right-aligned and missing
  leading dimensions behave as size 1; section 7: two sizes that disagree, neither of them
  1, are a ShapeError; section 8: the size of the result in each dimension is
  \<open>max(A[i], B[i])\<close>.\<close>

definition broadcast_shape :: "int list \<Rightarrow> int list \<Rightarrow> fault + int list" where
  "broadcast_shape a b =
     (let n = max (length a) (length b) in
      if list_all (\<lambda>i. aligned_size n a i = aligned_size n b i \<or>
                        aligned_size n a i = 1 \<or> aligned_size n b i = 1) [0..<n]
      then Inr (map (\<lambda>i. max (aligned_size n a i) (aligned_size n b i)) [0..<n])
      else Inl ShapeError)"

text \<open>Modelled from the spec: \<open>compute_shape\<close> is only declared in the header. Section 4.1:
  from the operands, of which the undefined ones are still to be allocated, one broadcast
  shape is produced: the shape of the first defined operand, broadcast against the shapes
  of the other defined operands in turn. A static shape bypasses all shape inference (so
  does the comment on \<open>declare_static_shape\<close> in the header).\<close>

fun broadcast_operands :: "OperandInfo list \<Rightarrow> int list \<Rightarrow> fault + int list" where
  "broadcast_operands [] shape = Inr shape"
| "broadcast_operands (op # ops) shape =
     (if \<not> t_defined (tensor op) then broadcast_operands ops shape
      else case broadcast_shape shape (t_sizes (tensor op)) of
             Inl e \<Rightarrow> Inl e
           | Inr shape1 \<Rightarrow> broadcast_operands ops shape1)"

definition compute_shape :: "TensorIterator \<Rightarrow> fault + TensorIterator" where
  "compute_shape it =
     (if static_shape_' it then Inr it
      else case filter (\<lambda>op. t_defined (tensor op)) (operands_' it) of
             [] \<Rightarrow> Inr (it\<lparr>shape_' := []\<rparr>)
           | op # ops \<Rightarrow>
               (case broadcast_operands ops (t_sizes (tensor op)) of
                  Inl e \<Rightarrow> Inl e
                | Inr shape \<Rightarrow> Inr (it\<lparr>shape_' := shape\<rparr>)))"

text \<open>Modelled from the spec: \<open>compute_strides\<close> is only declared in the header.
  Section 4.1 and section 8: every defined operand gets a stride vector of the broadcast
  shape's dimensionality, in bytes; a missing leading dimension has stride 0, and so has
  every dimension in which the operand's own size is 1.\<close>

definition broadcast_strides :: "nat \<Rightarrow> Tensor \<Rightarrow> int list" where
  "broadcast_strides n t =
     map (\<lambda>i. if i < n - length (t_sizes t) then 0
               else if t_sizes t ! (i - (n - length (t_sizes t))) = 1 then 0
               else t_strides t ! (i - (n - length (t_sizes t))) * t_element_size t)
       [0..<n]"

definition compute_strides :: "TensorIterator \<Rightarrow> TensorIterator" where
  "compute_strides it =
     it\<lparr>operands_' :=
          map (\<lambda>op. if t_defined (tensor op)
                     then op\<lparr>stride_bytes := broadcast_strides (ndim it) (tensor op)\<rparr>
                     else op)
            (operands_' it)\<rparr>"

text \<open>Two shapes are compatible when, in every right-aligned dimension, the sizes are
  equal or one of them is 1; they clash when in some dimension the sizes differ and both
  exceed 1.\<close>

definition compatible :: "int list \<Rightarrow> int list \<Rightarrow> bool" where
  "compatible a b =
     (let n = max (length a) (length b) in
      list_all (\<lambda>i. aligned_size n a i = aligned_size n b i \<or>
                     aligned_size n a i = 1 \<or> aligned_size n b i = 1) [0..<n])"



text \<open>A defined, strided, contiguous two-dimensional CPU tensor of four-byte elements.\<close>

definition matrix_tensor :: "int \<Rightarrow> int \<Rightarrow> Tensor" where
  "matrix_tensor m n =
     \<lparr>t_defined = True, t_layout = kStrided, t_device = kCPU, t_scalar_type = Dtype 6,
      t_sizes = [m, n], t_strides = [n, 1], t_element_size = 4, t_data_ptr = 0\<rparr>"

section \<open>Coalescing\<close>

text \<open>Modelled from the spec: \<open>coalesce_dimensions\<close> is only declared in the header.
  Section 4.1: adjacent dimensions are merged into one when, for every operand, the pair
  forms one contiguous run. The header has dimension 0 as the fastest moving dimension, so
  in its numbering the pair \<open>dim\<close>, \<open>dim+1\<close> is one contiguous run when
  \<open>stride[dim+1] == stride[dim] * size[dim]\<close>; numbered from the outermost dimension, as
  section 3 lists the shape, this is the formula of section 4.1. The merged dimension has
  the product of the two sizes and the stride of the inner one. Dimensions are merged from
  the innermost on, until no adjacent pair qualifies.\<close>

definition can_coalesce :: "TensorIterator \<Rightarrow> nat \<Rightarrow> bool" where
  "can_coalesce it dim =
     list_all (\<lambda>op. stride_bytes op ! (dim + 1) = stride_bytes op ! dim * shape_' it ! dim)
       (operands_' it)"

definition merge_dims :: "TensorIterator \<Rightarrow> nat \<Rightarrow> TensorIterator" where
  "merge_dims it dim =
     it\<lparr>shape_' := take dim (shape_' it) @
            (shape_' it ! dim * shape_' it ! (dim + 1)) # drop (dim + 2) (shape_' it),
        operands_' :=
          map (\<lambda>op. op\<lparr>stride_bytes :=
                 take (dim + 1) (stride_bytes op) @ drop (dim + 2) (stride_bytes op)\<rparr>)
            (operands_' it)\<rparr>"

function coalesce_from :: "TensorIterator \<Rightarrow> nat \<Rightarrow> TensorIterator" where
  "coalesce_from it dim =
     (if dim + 1 < ndim it
      then if can_coalesce it dim then coalesce_from (merge_dims it dim) dim
           else coalesce_from it (dim + 1)
      else it)"
  by pat_completeness auto
termination
  by (relation "measure (\<lambda>(it, dim). 2 * ndim it - dim)")
    (auto simp add: ndim_def merge_dims_def)

definition coalesce_dimensions :: "TensorIterator \<Rightarrow> TensorIterator" where
  "coalesce_dimensions it = (coalesce_from it 0)\<lparr>has_coalesced_dimensions_' := True\<rparr>"

text \<open>The condition in the words of section 4.1, for comparison:
  \<open>stride[dim] == stride[dim+1] * size[dim+1]\<close> for every operand.\<close>

definition spec_can_coalesce :: "TensorIterator \<Rightarrow> nat \<Rightarrow> bool" where
  "spec_can_coalesce it dim =
     list_all (\<lambda>op. stride_bytes op ! dim = stride_bytes op ! (dim + 1) * shape_' it ! (dim + 1))
       (operands_' it)"

text \<open>The shape and the strides of an iterator listed from the outermost dimension to the
  innermost, as section 3 lists them.\<close>

definition outermost_first :: "TensorIterator \<Rightarrow> TensorIterator" where
  "outermost_first it =
     it\<lparr>shape_' := rev (shape_' it),
        operands_' := map (\<lambda>op. op\<lparr>stride_bytes := rev (stride_bytes op)\<rparr>) (operands_' it)\<rparr>"

text \<open>One merge of an adjacent pair that qualifies for every operand.\<close>

definition coalesce_step :: "TensorIterator \<Rightarrow> TensorIterator \<Rightarrow> bool" where
  "coalesce_step it it1 =
     list_ex (\<lambda>dim. can_coalesce it dim \<and> it1 = merge_dims it dim) [0..<ndim it - 1]"

text \<open>Modelled from the spec: the traversal belongs to the execution driver
  (\<open>serial_for_each\<close>, only declared in the header). Section 4.4 and the header's comment
  on \<open>loop_t\<close>: the iteration space is walked in the order of the dimensions, dimension 0
  moving fastest, and the byte offset of an operand at an index is the sum over the
  dimensions of index times stride.\<close>

fun offsets :: "int list \<Rightarrow> int list \<Rightarrow> int list" where
  "offsets (n # ns) (s # ss) =
     concat (map (\<lambda>off. map (\<lambda>i. int i * s + off) [0..<nat n]) (offsets ns ss))"
| "offsets ns ss = [0]"

text \<open>The (byte offset, element) pairs an operand's traversal visits; \<open>mem\<close> is the
  operand's memory, addressed by the byte offset from its data pointer.\<close>

definition visited :: "(int \<Rightarrow> 'e) \<Rightarrow> TensorIterator \<Rightarrow> OperandInfo \<Rightarrow> (int \<times> 'e) list" where
  "visited mem it op = map (\<lambda>off. (off, mem off)) (offsets (shape_' it) (stride_bytes op))"

text \<open>After broadcasting, every operand's stride vector has the dimensionality of the
  shape, and sizes are not negative.\<close>

definition strides_match :: "TensorIterator \<Rightarrow> bool" where
  "strides_match it =
     (list_all (\<lambda>op. length (stride_bytes op) = ndim it) (operands_' it) \<and>
      list_all (\<lambda>n. 0 \<le> n) (shape_' it))"

text \<open>An iterator of the given shape whose operands have the given byte strides, for
  concrete runs.\<close>

definition example_iterator :: "int list \<Rightarrow> int list list \<Rightarrow> TensorIterator" where
  "example_iterator shape strides =
     TensorIterator0\<lparr>shape_' := shape,
       operands_' := map (\<lambda>st. OperandInfo0\<lparr>stride_bytes := st\<rparr>) strides\<rparr>"

section \<open>Splitting for 32-bit indexing\<close>





text \<open>Modelled from the spec: \<open>narrow\<close> is only declared in the header (``shrinks an
  iterated dimension''). Section 3: the index-offset vector records, per dimension, where
  a narrowed view starts; the operands' data pointers move to the start of the view.\<close>

definition narrow :: "nat \<Rightarrow> int \<Rightarrow> int \<Rightarrow> TensorIterator \<Rightarrow> TensorIterator" where
  "narrow dim start len it =
     it\<lparr>shape_' := (shape_' it)[dim := len],
        view_offsets_' := (view_offsets_' it)[dim := view_offsets_' it ! dim + start],
        operands_' :=
          map (\<lambda>op. op\<lparr>data := map_option (\<lambda>p. p + stride_bytes op ! dim * start) (data op)\<rparr>)
            (operands_' it)\<rparr>"

text \<open>Modelled from the spec: \<open>split\<close> is only declared in the header (``splits this
  TensorIterator into two iterators; together they iterate over the entire operation'').
  Section 4.5: the iterator is split along the dimension into two halves.\<close>

definition split :: "TensorIterator \<Rightarrow> nat \<Rightarrow> TensorIterator \<times> TensorIterator" where
  "split it dim =
     (let n = shape_' it ! dim; half = n div 2
      in (narrow dim 0 half it, narrow dim half (n - half) it))"

text \<open>Modelled from the spec: \<open>get_dim_to_split\<close> is only declared in the header
  (``returns the dimension with the largest extent: (size[dim]-1) * stride[dim]'', as in
  section 4.5). The extents of all operands are compared; the first largest one decides.
  The dimension is split into two halves, and only a dimension of at least two indices
  has two halves, so the dimensions compared are those of size two and more.\<close>

definition extents :: "TensorIterator \<Rightarrow> (int \<times> nat) list" where
  "extents it =
     concat (map (\<lambda>dim. map (\<lambda>op. ((shape_' it ! dim - 1) * stride_bytes op ! dim, dim))
                          (operands_' it))
               (filter (\<lambda>dim. 2 \<le> shape_' it ! dim) [0..<ndim it]))"

fun largest :: "int \<times> nat \<Rightarrow> (int \<times> nat) list \<Rightarrow> int \<times> nat" where
  "largest best [] = best"
| "largest best (x # xs) = largest (if fst best < fst x then x else best) xs"

definition get_dim_to_split :: "TensorIterator \<Rightarrow> nat" where
  "get_dim_to_split it = (case extents it of [] \<Rightarrow> 0 | x # xs \<Rightarrow> snd (largest x xs))"

text \<open>The dimension of the largest extent among all dimensions, in the words of
  section 4.5, for comparison.\<close>

definition all_extents :: "TensorIterator \<Rightarrow> (int \<times> nat) list" where
  "all_extents it =
     concat (map (\<lambda>dim. map (\<lambda>op. ((shape_' it ! dim - 1) * stride_bytes op ! dim, dim))
                          (operands_' it))
               [0..<ndim it])"

definition largest_extent_dim :: "TensorIterator \<Rightarrow> nat" where
  "largest_extent_dim it =
     (case all_extents it of [] \<Rightarrow> 0 | x # xs \<Rightarrow> snd (largest x xs))"

text \<open>An entry is the first largest one of a list: the entries before it are smaller, the
  entries after it are not larger.\<close>

definition first_largest :: "int \<times> nat \<Rightarrow> (int \<times> nat) list \<Rightarrow> bool" where
  "first_largest r ys =
     (\<exists>pre post. ys = pre @ r # post \<and> (\<forall>x\<in>set pre. fst x < fst r) \<and>
        (\<forall>x\<in>set post. fst x \<le> fst r))"











section \<open>Properties of the header's inline code\<close>

lemmas call_defs =
  add_output_def add_output3_def add_input_def add_input3_def set_check_mem_overlap_def
  check_all_same_dtype_def check_all_same_device_def enforce_safe_casting_to_output_def
  promote_inputs_to_common_dtype_def cast_common_dtype_to_outputs_def dont_resize_outputs_def
  declare_static_shape_def declare_static_shape_squash_def

lemmas run_defs = call_defs OperandInfo1_def OperandInfo3_def OperandInfo0_def validate_def
  vector_tensor_def TensorIterator0_def undefined_Tensor_def

subsection \<open>The common dtype query\<close>





subsection \<open>Outputs and inputs in the operand list\<close>

lemma OperandInfo1_tensor: "OperandInfo1 t = Inr op \<Longrightarrow> tensor op = t"
  by (auto simp add: OperandInfo1_def validate_def split: if_splits)

lemma OperandInfo3_tensor: "OperandInfo3 t dev dtype = Inr op \<Longrightarrow> tensor op = t"
  by (auto simp add: OperandInfo3_def validate_def split: if_splits)

lemma apply_call_operands:
  "apply_call c it = Inr it' \<Longrightarrow>
     map tensor (operands_' it') = map tensor (operands_' it) @ added_tensors [c] \<and>
     num_outputs_' it' = num_outputs_' it + length (added_outputs [c])"
  by (cases c)
    (auto simp add: call_defs Let_def dest: OperandInfo1_tensor OperandInfo3_tensor
      split: sum.splits if_splits)

lemma added_tensors_Cons: "added_tensors (c # cs) = added_tensors [c] @ added_tensors cs"
  by (cases c) simp_all

lemma added_outputs_Cons: "added_outputs (c # cs) = added_outputs [c] @ added_outputs cs"
  by (cases c) simp_all

lemma run_operands:
  "run cs it = Inr it' \<Longrightarrow>
     map tensor (operands_' it') = map tensor (operands_' it) @ added_tensors cs \<and>
     num_outputs_' it' = num_outputs_' it + length (added_outputs cs)"
proof (induction cs arbitrary: it)
  case Nil
  then show ?case by simp
next
  case (Cons c cs)
  then obtain it1 where step: "apply_call c it = Inr it1" and rest: "run cs it1 = Inr it'"
    by (auto split: sum.splits)
  from Cons.IH [OF rest] apply_call_operands [OF step] show ?case
    by (simp add: added_tensors_Cons [of c cs] added_outputs_Cons [of c cs])
qed

lemma added_tensors_no_outputs: "added_outputs cs = [] \<Longrightarrow> added_tensors cs = added_inputs cs"
  by (induction cs rule: added_tensors.induct) simp_all

lemma outputs_first_split:
  "outputs_first cs \<Longrightarrow> added_tensors cs = added_outputs cs @ added_inputs cs"
  by (induction cs rule: outputs_first.induct) (simp_all add: added_tensors_no_outputs)

lemma added_length: "length (added_tensors cs) = length (added_outputs cs) + length (added_inputs cs)"
  by (induction cs rule: added_tensors.induct) simp_all

text \<open>
  Claim C4, as amended. \<open>add_output\<close> and \<open>add_input\<close> both append to the operand
  list, and \<open>add_output\<close> also counts the output. So for every sequence of calls that
  succeeds on a fresh iterator, in any order, the number of declared outputs is the number
  of outputs added and does not exceed the operand count, and \<open>ninputs\<close> is the number of
  inputs added. When no output is added after an input, \<open>output(i)\<close> is the \<open>i\<close>-th output
  added and \<open>input(j)\<close> the \<open>j\<close>-th input added: the outputs are at the indices
  \<open>[0, num_outputs_)\<close> and the inputs at the remaining ones.
\<close>

theorem outputs_precede_inputs:
  assumes "run cs TensorIterator0 = Inr it"
  shows "noutputs it \<le> ntensors it \<and>
    noutputs it = length (added_outputs cs) \<and>
    ninputs it = int (length (added_inputs cs)) \<and>
    (outputs_first cs \<longrightarrow>
      (\<forall>i < length (added_outputs cs). output' it (int i) = Inr (added_outputs cs ! i)) \<and>
      (\<forall>j < length (added_inputs cs). input' it (int j) = Inr (added_inputs cs ! j)))"
proof -
  from run_operands [OF assms]
  have ops: "map tensor (operands_' it) = added_tensors cs"
    and n: "num_outputs_' it = length (added_outputs cs)"
    by (simp_all add: TensorIterator0_def)
  from ops have len: "length (operands_' it) = length (added_tensors cs)"
    by (metis length_map)
  have nth: "tensor (operands_' it ! k) = added_tensors cs ! k" if "k < length (operands_' it)" for k
    using that ops by (metis nth_map)
  have counts: "noutputs it \<le> ntensors it \<and> noutputs it = length (added_outputs cs) \<and>
      ninputs it = int (length (added_inputs cs))"
    using n len by (simp add: noutputs_def ntensors_def ninputs_def added_length)
  have pos: "(\<forall>i < length (added_outputs cs). output' it (int i) = Inr (added_outputs cs ! i)) \<and>
      (\<forall>j < length (added_inputs cs). input' it (int j) = Inr (added_inputs cs ! j))"
    if first: "outputs_first cs"
  proof -
    have split: "added_tensors cs = added_outputs cs @ added_inputs cs"
      by (rule outputs_first_split [OF first])
    show ?thesis
      using n len nth
      by (auto simp add: output'_def input'_def ntensors_def added_length split nth_append)
  qed
  from counts pos show ?thesis by blast
qed

theorem outputs_precede_inputs_witness:
  "\<not> isl (run [Add_output (vector_tensor 6), Add_input (vector_tensor 5),
       Add_input (vector_tensor 1)] TensorIterator0) \<and>
   outputs_first [Add_output (vector_tensor 6), Add_input (vector_tensor 5),
       Add_input (vector_tensor 1)] \<and>
   noutputs (projr (run [Add_output (vector_tensor 6), Add_input (vector_tensor 5),
       Add_input (vector_tensor 1)] TensorIterator0)) = 1 \<and>
   output' (projr (run [Add_output (vector_tensor 6), Add_input (vector_tensor 5),
       Add_input (vector_tensor 1)] TensorIterator0)) 0 = Inr (vector_tensor 6) \<and>
   input' (projr (run [Add_output (vector_tensor 6), Add_input (vector_tensor 5),
       Add_input (vector_tensor 1)] TensorIterator0)) 1 = Inr (vector_tensor 1)"
  using outputs_precede_inputs [of "[Add_output (vector_tensor 6), Add_input (vector_tensor 5),
       Add_input (vector_tensor 1)]"
     "projr (run [Add_output (vector_tensor 6), Add_input (vector_tensor 5),
       Add_input (vector_tensor 1)] TensorIterator0)"]
  by (simp add: run_defs noutputs_def ntensors_def output'_def input'_def)

text \<open>
  The claim as stated (any order of the calls) fails when an input is added before an
  output: the operand list is then \<open>[input, output]\<close> with one declared output, so
  \<open>output(0)\<close> is the tensor that was added as the input and \<open>input(0)\<close> the one that
  was added as the output.
\<close>

theorem input_before_output_counterexample:
  "\<not> isl (run [Add_input (vector_tensor 5), Add_output (vector_tensor 6)] TensorIterator0) \<and>
   added_outputs [Add_input (vector_tensor 5), Add_output (vector_tensor 6)] = [vector_tensor 6] \<and>
   noutputs (projr (run [Add_input (vector_tensor 5), Add_output (vector_tensor 6)]
       TensorIterator0)) = 1 \<and>
   output' (projr (run [Add_input (vector_tensor 5), Add_output (vector_tensor 6)]
       TensorIterator0)) 0 = Inr (vector_tensor 5) \<and>
   input' (projr (run [Add_input (vector_tensor 5), Add_output (vector_tensor 6)]
       TensorIterator0)) 0 = Inr (vector_tensor 6) \<and>
   vector_tensor 5 \<noteq> vector_tensor 6"
  by (simp add: run_defs noutputs_def ntensors_def output'_def input'_def)

subsection \<open>Promotion, casting and the same-dtype check\<close>

text \<open>
  Claim C7. \<open>promote_inputs_to_common_dtype(true)\<close> and
  \<open>cast_common_dtype_to_outputs(true)\<close> each set their own flag and clear
  \<open>check_all_same_dtype_\<close>, which a fresh iterator has set; the same-dtype check of
  planning, which that flag gates, then passes whatever the operands' dtypes are.
\<close>

theorem promotion_relaxes_same_dtype_check: 
  "promote_inputs_to_common_dtype_' (promote_inputs_to_common_dtype True it) \<and>
   \<not> check_all_same_dtype_' (promote_inputs_to_common_dtype True it) \<and>
   cast_common_dtype_to_outputs_' (cast_common_dtype_to_outputs True it) \<and>
   \<not> check_all_same_dtype_' (cast_common_dtype_to_outputs True it) \<and>
   check_all_same_dtype_' TensorIterator0 \<and>
   check_dtypes (promote_inputs_to_common_dtype True it) = Inr () \<and>
   check_dtypes (cast_common_dtype_to_outputs True it) = Inr ()"
  by (simp add: promote_inputs_to_common_dtype_def cast_common_dtype_to_outputs_def
      TensorIterator0_def check_dtypes_def)

text \<open>On two operands of different dtypes the check fails by default and passes once
  promotion is requested.\<close>

theorem promotion_relaxes_same_dtype_check_witness:
  "check_dtypes (TensorIterator0\<lparr>operands_' :=
       [OperandInfo0\<lparr>target_dtype := Dtype 6\<rparr>, OperandInfo0\<lparr>target_dtype := Dtype 7\<rparr>]\<rparr>)
     = Inl TypeError \<and>
   check_dtypes (promote_inputs_to_common_dtype True (TensorIterator0\<lparr>operands_' :=
       [OperandInfo0\<lparr>target_dtype := Dtype 6\<rparr>, OperandInfo0\<lparr>target_dtype := Dtype 7\<rparr>]\<rparr>))
     = Inr ()"
  using promotion_relaxes_same_dtype_check [of "TensorIterator0\<lparr>operands_' :=
       [OperandInfo0\<lparr>target_dtype := Dtype 6\<rparr>, OperandInfo0\<lparr>target_dtype := Dtype 7\<rparr>]\<rparr>"]
  by (simp add: check_dtypes_def TensorIterator0_def OperandInfo0_def is_type_defined_def)

text \<open>
  Claim C10. With the argument \<open>false\<close> the two setters clear only their own flag:
  \<open>check_all_same_dtype_\<close> keeps its value, so after promotion (or casting) is enabled and
  disabled again the check stays off until \<open>check_all_same_dtype(true)\<close> is called. For
  either argument, no field other than the setter's own flag and \<open>check_all_same_dtype_\<close>
  changes.
\<close>

theorem disabling_promotion_keeps_check_off:
  "promote_inputs_to_common_dtype False it = it\<lparr>promote_inputs_to_common_dtype_' := False\<rparr> \<and>
   cast_common_dtype_to_outputs False it = it\<lparr>cast_common_dtype_to_outputs_' := False\<rparr> \<and>
   check_all_same_dtype_' (promote_inputs_to_common_dtype False it) = check_all_same_dtype_' it \<and>
   check_all_same_dtype_' (cast_common_dtype_to_outputs False it) = check_all_same_dtype_' it \<and>
   \<not> check_all_same_dtype_' (promote_inputs_to_common_dtype False (promote_inputs_to_common_dtype True it)) \<and>
   \<not> check_all_same_dtype_' (cast_common_dtype_to_outputs False (cast_common_dtype_to_outputs True it)) \<and>
   check_all_same_dtype_' (check_all_same_dtype True
      (promote_inputs_to_common_dtype False (promote_inputs_to_common_dtype True it))) \<and>
   promote_inputs_to_common_dtype b it =
     it\<lparr>promote_inputs_to_common_dtype_' := b,
        check_all_same_dtype_' := check_all_same_dtype_' it \<and> \<not> b\<rparr> \<and>
   cast_common_dtype_to_outputs b it =
     it\<lparr>cast_common_dtype_to_outputs_' := b,
        check_all_same_dtype_' := check_all_same_dtype_' it \<and> \<not> b\<rparr>"
  by (cases b) (simp_all add: promote_inputs_to_common_dtype_def cast_common_dtype_to_outputs_def
      check_all_same_dtype_def)

subsection \<open>Static shapes\<close>

text \<open>
  Claim C8. While \<open>resize_outputs_\<close> is still set, both overloads of
  \<open>declare_static_shape\<close> fail in the \<open>TORCH_CHECK\<close>. After \<open>dont_resize_outputs()\<close>
  the call stores the given shape and sets \<open>static_shape_\<close>; the overload with
  \<open>squash_dim\<close> in \<open>[0, ndim)\<close> stores the shape with that dimension's size set to 1.
  A \<open>squash_dim\<close> outside \<open>[0, ndim)\<close> fails in the second \<open>TORCH_CHECK\<close>, except
  for an empty shape, which is stored as it is.
\<close>

theorem declare_static_shape_contract:
  "(resize_outputs_' it \<longrightarrow>
      declare_static_shape shape it =
        Inl (Check_failed
          [Str ''dont_resize_outputs() must be called before declare_static_shape(...)'']) \<and>
      declare_static_shape_squash shape d it =
        Inl (Check_failed
          [Str ''dont_resize_outputs() must be called before declare_static_shape(...)''])) \<and>
   (\<not> resize_outputs_' it \<longrightarrow>
      declare_static_shape shape it = Inr (it\<lparr>shape_' := shape, static_shape_' := True\<rparr>)) \<and>
   (\<not> resize_outputs_' it \<and> 0 \<le> d \<and> d < int (length shape) \<longrightarrow>
      declare_static_shape_squash shape d it =
        Inr (it\<lparr>shape_' := shape[nat d := 1], static_shape_' := True\<rparr>)) \<and>
   (\<not> resize_outputs_' it \<and> shape \<noteq> [] \<and> \<not> (0 \<le> d \<and> d < int (length shape)) \<longrightarrow>
      declare_static_shape_squash shape d it =
        Inl (Check_failed [Str ''squash_dim '', Num d, Str '' must be in [0, '',
               Num (int (length shape)), Str '').''])) \<and>
   (\<not> resize_outputs_' it \<longrightarrow>
      declare_static_shape_squash [] d it = Inr (it\<lparr>shape_' := [], static_shape_' := True\<rparr>)) \<and>
   declare_static_shape shape (dont_resize_outputs it) =
     Inr (it\<lparr>shape_' := shape, resize_outputs_' := False, static_shape_' := True\<rparr>)"
  by (auto simp add: declare_static_shape_def declare_static_shape_squash_def
      dont_resize_outputs_def)

theorem declare_static_shape_contract_witness:
  "declare_static_shape [2, 3, 4] TensorIterator0 =
     Inl (Check_failed
       [Str ''dont_resize_outputs() must be called before declare_static_shape(...)'']) \<and>
   shape_' (projr (declare_static_shape [2, 3, 4] (dont_resize_outputs TensorIterator0))) = [2, 3, 4] \<and>
   shape_' (projr (declare_static_shape_squash [2, 3, 4] 1 (dont_resize_outputs TensorIterator0)))
     = [2, 1, 4] \<and>
   isl (declare_static_shape_squash [2, 3, 4] 3 (dont_resize_outputs TensorIterator0))"
  using declare_static_shape_contract [of TensorIterator0 "[2, 3, 4]" 1]
    declare_static_shape_contract [of "dont_resize_outputs TensorIterator0" "[2, 3, 4]" 1]
    declare_static_shape_contract [of "dont_resize_outputs TensorIterator0" "[2, 3, 4]" 3]
  by (simp add: TensorIterator0_def dont_resize_outputs_def)

subsection \<open>Equality of split iterators\<close>

text \<open>
  Claim C9. \<open>a == b\<close> holds exactly when \<open>a\<close> and \<open>b\<close> are the same object or both
  have an empty stack; so two exhausted iterators are equal wherever they live, and
  \<open>operator!=\<close> is the negation of \<open>operator==\<close>.
\<close>

theorem iterator_eq_iff:
  "iterator_eq h a b = (a = b \<or> (vec (h a) = [] \<and> vec (h b) = [])) \<and>
   (vec (h a) = [] \<and> vec (h b) = [] \<longrightarrow> iterator_eq h a b) \<and>
   iterator_neq h a b = (\<not> iterator_eq h a b)"
  by (simp add: iterator_eq_def iterator_neq_def)

theorem iterator_eq_iff_witness:
  "iterator_eq (\<lambda>a. if a = 2 then \<lparr>vec = [Some TensorIterator0]\<rparr> else \<lparr>vec = []\<rparr>) 0 1 \<and>
   \<not> iterator_eq (\<lambda>a. if a = 2 then \<lparr>vec = [Some TensorIterator0]\<rparr> else \<lparr>vec = []\<rparr>) 1 2 \<and>
   iterator_neq (\<lambda>a. if a = 2 then \<lparr>vec = [Some TensorIterator0]\<rparr> else \<lparr>vec = []\<rparr>) 1 2"
  using iterator_eq_iff [of "\<lambda>a. if a = 2 then \<lparr>vec = [Some TensorIterator0]\<rparr> else \<lparr>vec = []\<rparr>" 0 1]
    iterator_eq_iff [of "\<lambda>a. if a = 2 then \<lparr>vec = [Some TensorIterator0]\<rparr> else \<lparr>vec = []\<rparr>" 1 2]
  by simp

section \<open>Properties of shape and stride planning\<close>



lemma aligned_size_Nil: "i < n \<Longrightarrow> aligned_size n [] i = 1"
  by (simp add: aligned_size_def)














lemma broadcast_strides_nth:
  "i < n \<Longrightarrow> aligned_size n (t_sizes t) i = 1 \<Longrightarrow> broadcast_strides n t ! i = 0"
  by (auto simp add: broadcast_strides_def aligned_size_def split: if_splits)

lemma compatible_broadcast:
  assumes "compatible a b"
  shows "broadcast_shape a b =
    Inr (map (\<lambda>i. max (aligned_size (max (length a) (length b)) a i)
                       (aligned_size (max (length a) (length b)) b i))
          [0..<max (length a) (length b)])"
  using assms by (simp add: compatible_def broadcast_shape_def Let_def)

lemma compute_strides_nth:
  assumes "k < length (operands_' it)" and "t_defined (tensor (operands_' it ! k))"
  shows "stride_bytes (operands_' (compute_strides it) ! k)
    = broadcast_strides (ndim it) (tensor (operands_' it ! k))"
  using assms by (simp add: compute_strides_def)

text \<open>
  Claim C1, as amended. For an iterator without a static shape whose defined operands are
  two, of compatible shapes \<open>A\<close> and \<open>B\<close>, \<open>compute_shape\<close> gives a shape of
  \<open>max (rank A) (rank B)\<close> dimensions whose size in each dimension is \<open>max(A[i], B[i])\<close>.
  After \<open>compute_strides\<close>, the byte stride of every defined operand is 0 in every
  dimension in which its own size is 1, the missing leading dimensions included.
\<close>

theorem broadcast_sizes_and_strides:
  assumes static: "\<not> static_shape_' it"
    and ops: "filter (\<lambda>op. t_defined (tensor op)) (operands_' it) = [a, b]"
    and compat: "compatible (t_sizes (tensor a)) (t_sizes (tensor b))"
    and n: "n = max (length (t_sizes (tensor a))) (length (t_sizes (tensor b)))"
  shows "\<exists>s. compute_shape it = Inr (it\<lparr>shape_' := s\<rparr>) \<and> length s = n \<and>
    (\<forall>i<n. s ! i =
       max (aligned_size n (t_sizes (tensor a)) i) (aligned_size n (t_sizes (tensor b)) i)) \<and>
    (\<forall>k<ntensors it. t_defined (tensor (operands_' it ! k)) \<longrightarrow>
       (\<forall>i<n. aligned_size n (t_sizes (tensor (operands_' it ! k))) i = 1 \<longrightarrow>
          stride_bytes (operands_' (compute_strides (it\<lparr>shape_' := s\<rparr>)) ! k) ! i = 0))"
proof -
  let ?A = "t_sizes (tensor a)" and ?B = "t_sizes (tensor b)"
  let ?s = "map (\<lambda>i. max (aligned_size n ?A i) (aligned_size n ?B i)) [0..<n]"
  have "b \<in> set (filter (\<lambda>op. t_defined (tensor op)) (operands_' it))"
    by (simp add: ops)
  then have b: "t_defined (tensor b)" by simp
  have shape: "compute_shape it = Inr (it\<lparr>shape_' := ?s\<rparr>)"
    using static ops b compatible_broadcast [OF compat] n
    by (simp add: compute_shape_def)
  have len: "length ?s = n" by simp
  have sizes: "\<forall>i<n. ?s ! i = max (aligned_size n ?A i) (aligned_size n ?B i)"
    by simp
  have strides: "stride_bytes (operands_' (compute_strides (it\<lparr>shape_' := ?s\<rparr>)) ! k) ! i = 0"
    if "k < ntensors it" and "t_defined (tensor (operands_' it ! k))" and "i < n"
      and "aligned_size n (t_sizes (tensor (operands_' it ! k))) i = 1" for k i
    using that compute_strides_nth [of k "it\<lparr>shape_' := ?s\<rparr>"]
    by (simp add: ntensors_def ndim_def broadcast_strides_nth)
  show ?thesis
    using shape len sizes strides by (intro exI [of _ ?s]) blast
qed

text \<open>The specification's example, with an output that is still to be allocated: the
  inputs of shapes \<open>[3,1]\<close> and \<open>[1,4]\<close> give the shape \<open>[3,4]\<close>, and each of them has
  stride 0 in its dimension of size 1.\<close>

theorem broadcast_sizes_and_strides_witness:
  "compatible (t_sizes (matrix_tensor 3 1)) (t_sizes (matrix_tensor 1 4)) \<and>
   shape_' (projr (compute_shape (projr (run [Add_output undefined_Tensor,
       Add_input (matrix_tensor 3 1), Add_input (matrix_tensor 1 4)] TensorIterator0))))
     = [3, 4] \<and>
   map stride_bytes (operands_' (compute_strides (projr (compute_shape (projr (run
       [Add_output undefined_Tensor, Add_input (matrix_tensor 3 1),
        Add_input (matrix_tensor 1 4)] TensorIterator0))))))
     = [[], [4, 0], [0, 4]]"
  using broadcast_sizes_and_strides [of "projr (run [Add_output undefined_Tensor,
        Add_input (matrix_tensor 3 1), Add_input (matrix_tensor 1 4)] TensorIterator0)"
      "projr (OperandInfo1 (matrix_tensor 3 1))" "projr (OperandInfo1 (matrix_tensor 1 4))" 2]
  by (simp add: run_defs matrix_tensor_def compatible_def aligned_size_def compute_shape_def
      broadcast_shape_def compute_strides_def broadcast_strides_def ndim_def upt_rec [of 0]
      upt_rec [of 1] upt_rec [of 2])

text \<open>
  The claim as stated (every pair of compatible shapes) fails once the shape is pinned:
  with a static shape declared, \<open>compute_shape\<close> leaves the declared shape, here \<open>[7]\<close>
  for operands of the compatible sizes 5 and 1, whose maximum is 5.
\<close>

theorem static_shape_is_not_broadcast:
  "compatible (t_sizes (vector_tensor 5)) (t_sizes (vector_tensor 1)) \<and>
   map tensor (operands_' (projr (run [Dont_resize_outputs, Declare_static_shape [7],
       Add_input (vector_tensor 5), Add_input (vector_tensor 1)] TensorIterator0)))
     = [vector_tensor 5, vector_tensor 1] \<and>
   shape_' (projr (compute_shape (projr (run [Dont_resize_outputs, Declare_static_shape [7],
       Add_input (vector_tensor 5), Add_input (vector_tensor 1)] TensorIterator0)))) = [7] \<and>
   max (aligned_size 1 (t_sizes (vector_tensor 5)) 0) (aligned_size 1 (t_sizes (vector_tensor 1)) 0)
     = 5"
  by (simp add: run_defs compatible_def aligned_size_def compute_shape_def
      upt_rec [of 0] upt_rec [of 1])

section \<open>Properties of coalescing\<close>

declare coalesce_from.simps [simp del]

lemma concat_upt_mult:
  "concat (map f [0..<m * n]) =
     concat (map (\<lambda>i. concat (map (\<lambda>j. f (i * n + j)) [0..<n])) [0..<m])"
proof (induction m)
  case 0
  show ?case by simp
next
  case (Suc m)
  have "[0..<Suc m * n] = [0..<m * n] @ [m * n..<m * n + n]"
    using upt_add_eq_append [of 0 "m * n" n] by (simp add: add.commute)
  moreover have "map f [m * n..<m * n + n] = map (\<lambda>j. f (m * n + j)) [0..<n]"
    by (rule nth_equalityI) simp_all
  ultimately show ?case using Suc.IH by simp
qed

lemma map_upt_mult:
  "map g [0..<m * n] = concat (map (\<lambda>j. map (\<lambda>i. g (j * n + i)) [0..<n]) [0..<m])"
  using concat_upt_mult [of "\<lambda>k. [g k]" m n] by (simp add: concat_map_singleton)

lemma concat_map_concat:
  "concat (map f (concat xss)) = concat (map (\<lambda>xs. concat (map f xs)) xss)"
  by (induction xss) simp_all

lemma offsets_merge_inner:
  assumes "0 \<le> n0" and "0 \<le> n1"
  shows "offsets (n0 # n1 # ns) (s0 # s0 * n0 # ss) = offsets (n0 * n1 # ns) (s0 # ss)"
proof -
  let ?R = "offsets ns ss"
  let ?g = "\<lambda>off k. int k * s0 + off"
  have one: "concat (map (\<lambda>off'. map (\<lambda>i. int i * s0 + off') [0..<nat n0])
        (map (\<lambda>j. int j * (s0 * n0) + off) [0..<nat n1]))
      = map (?g off) [0..<nat n1 * nat n0]" for off
    using assms(1) unfolding map_upt_mult [of "?g off" "nat n1" "nat n0"]
    by (simp add: comp_def algebra_simps)
  have "offsets (n0 # n1 # ns) (s0 # s0 * n0 # ss)
      = concat (map (\<lambda>off. concat (map (\<lambda>off'. map (\<lambda>i. int i * s0 + off') [0..<nat n0])
          (map (\<lambda>j. int j * (s0 * n0) + off) [0..<nat n1]))) ?R)"
    by (simp add: concat_map_concat comp_def)
  also have "\<dots> = concat (map (\<lambda>off. map (?g off) [0..<nat n1 * nat n0]) ?R)"
    by (simp only: one)
  also have "\<dots> = offsets (n0 * n1 # ns) (s0 # ss)"
    using assms by (simp add: nat_mult_distrib mult.commute)
  finally show ?thesis .
qed

lemma offsets_merge_at:
  assumes "dim + 1 < length sh" and "length st = length sh"
    and "st ! (dim + 1) = st ! dim * sh ! dim"
    and "\<forall>n\<in>set sh. 0 \<le> n"
  shows "offsets (take dim sh @ (sh ! dim * sh ! (dim + 1)) # drop (dim + 2) sh)
           (take (dim + 1) st @ drop (dim + 2) st) = offsets sh st"
  using assms
proof (induction dim arbitrary: sh st)
  case 0
  then obtain n0 n1 ns where sh: "sh = n0 # n1 # ns"
    by (cases sh; cases "tl sh") auto
  with 0 obtain s0 s1 ss where st: "st = s0 # s1 # ss"
    by (cases st; cases "tl st") auto
  from 0 sh st have "s1 = s0 * n0" "0 \<le> n0" "0 \<le> n1" by simp_all
  with offsets_merge_inner [of n0 n1 ns s0 ss] show ?case by (simp add: sh st)
next
  case (Suc dim)
  then obtain n ns where sh: "sh = n # ns" by (cases sh) auto
  with Suc.prems obtain s ss where st: "st = s # ss" by (cases st) auto
  from Suc.prems sh st
  have "offsets (take dim ns @ (ns ! dim * ns ! (dim + 1)) # drop (dim + 2) ns)
           (take (dim + 1) ss @ drop (dim + 2) ss) = offsets ns ss"
    by (intro Suc.IH) simp_all
  then show ?case by (simp add: sh st)
qed

lemma ndim_merge_dims: "dim + 1 < ndim it \<Longrightarrow> ndim (merge_dims it dim) = ndim it - 1"
  by (simp add: ndim_def merge_dims_def)

lemma strides_match_merge_dims:
  assumes "strides_match it" and "dim + 1 < ndim it"
  shows "strides_match (merge_dims it dim)"
proof -
  from assms have nonneg: "\<forall>n\<in>set (shape_' it). 0 \<le> n"
    and lens: "\<forall>op\<in>set (operands_' it). length (stride_bytes op) = length (shape_' it)"
    by (simp_all add: strides_match_def list_all_iff ndim_def)
  from assms(2) have "shape_' it ! dim \<in> set (shape_' it)" "shape_' it ! (dim + 1) \<in> set (shape_' it)"
    by (simp_all add: ndim_def)
  with nonneg have prod: "0 \<le> shape_' it ! dim * shape_' it ! (dim + 1)" by simp
  have "\<forall>n\<in>set (take dim (shape_' it)) \<union> set (drop (dim + 2) (shape_' it)). 0 \<le> n"
    using nonneg by (auto dest: in_set_takeD in_set_dropD)
  with prod lens assms(2) show ?thesis
    by (auto simp add: strides_match_def list_all_iff ndim_def merge_dims_def)
qed

lemma merge_dims_offsets:
  assumes "strides_match it" and "dim + 1 < ndim it" and "can_coalesce it dim"
    and "k < length (operands_' it)"
  shows "offsets (shape_' (merge_dims it dim)) (stride_bytes (operands_' (merge_dims it dim) ! k))
    = offsets (shape_' it) (stride_bytes (operands_' it ! k))"
proof -
  let ?op = "operands_' it ! k"
  from assms(4) have mem: "?op \<in> set (operands_' it)" by simp
  with assms(1) have len: "length (stride_bytes ?op) = length (shape_' it)"
    by (simp add: strides_match_def list_all_iff ndim_def)
  from assms(1) have nonneg: "\<forall>n\<in>set (shape_' it). 0 \<le> n"
    by (simp add: strides_match_def list_all_iff)
  from assms(3) mem have cond: "stride_bytes ?op ! (dim + 1) =
      stride_bytes ?op ! dim * shape_' it ! dim"
    by (simp add: can_coalesce_def list_all_iff)
  from assms(2) have d: "dim + 1 < length (shape_' it)" by (simp add: ndim_def)
  from offsets_merge_at [OF d len cond nonneg] assms(4) show ?thesis
    by (simp add: merge_dims_def)
qed

lemma merge_dims_frame:
  "length (operands_' (merge_dims it dim)) = length (operands_' it) \<and>
   perm_' (merge_dims it dim) = perm_' it"
  by (simp add: merge_dims_def)

lemma coalesce_from_lossless:
  "strides_match it \<Longrightarrow>
     length (operands_' (coalesce_from it dim)) = length (operands_' it) \<and>
     perm_' (coalesce_from it dim) = perm_' it \<and>
     (\<forall>k<length (operands_' it).
        offsets (shape_' (coalesce_from it dim)) (stride_bytes (operands_' (coalesce_from it dim) ! k))
        = offsets (shape_' it) (stride_bytes (operands_' it ! k)))"
proof (induction it dim rule: coalesce_from.induct)
  case (1 it dim)
  show ?case
  proof (cases "dim + 1 < ndim it")
    case False
    then show ?thesis by (simp add: coalesce_from.simps [of it dim])
  next
    case inside: True
    show ?thesis
    proof (cases "can_coalesce it dim")
      case True
      have eq: "coalesce_from it dim = coalesce_from (merge_dims it dim) dim"
        using inside True by (simp add: coalesce_from.simps [of it dim])
      from "1.IH"(1) [OF inside True strides_match_merge_dims [OF "1.prems" inside]]
        merge_dims_frame [of it dim] merge_dims_offsets [OF "1.prems" inside True]
      show ?thesis by (simp add: eq)
    next
      case False
      have eq: "coalesce_from it dim = coalesce_from it (dim + 1)"
        using inside False by (simp add: coalesce_from.simps [of it dim])
      from "1.IH"(2) [OF inside False "1.prems"] show ?thesis by (simp add: eq)
    qed
  qed
qed

lemma coalesce_from_steps: "coalesce_step\<^sup>*\<^sup>* it (coalesce_from it dim)"
proof (induction it dim rule: coalesce_from.induct)
  case (1 it dim)
  show ?case
  proof (cases "dim + 1 < ndim it")
    case False
    then show ?thesis by (simp add: coalesce_from.simps [of it dim])
  next
    case inside: True
    show ?thesis
    proof (cases "can_coalesce it dim")
      case True
      have eq: "coalesce_from it dim = coalesce_from (merge_dims it dim) dim"
        using inside True by (simp add: coalesce_from.simps [of it dim])
      have "coalesce_step it (merge_dims it dim)"
        using inside True by (auto simp add: coalesce_step_def list_ex_iff)
      with "1.IH"(1) [OF inside True] show ?thesis
        by (simp add: eq converse_rtranclp_into_rtranclp)
    next
      case False
      have eq: "coalesce_from it dim = coalesce_from it (dim + 1)"
        using inside False by (simp add: coalesce_from.simps [of it dim])
      from "1.IH"(2) [OF inside False] show ?thesis by (simp add: eq)
    qed
  qed
qed

lemma merge_dims_earlier:
  assumes m: "strides_match it" and inside: "dim + 1 < ndim it" and d: "d < dim"
  shows "can_coalesce (merge_dims it dim) d \<longleftrightarrow> can_coalesce it d"
proof -
  have sh: "shape_' (merge_dims it dim) ! d = shape_' it ! d"
    using inside d by (simp add: merge_dims_def ndim_def nth_append)
  have one: "(take (dim + 1) (stride_bytes op) @ drop (dim + 2) (stride_bytes op)) ! (d + 1) =
        (take (dim + 1) (stride_bytes op) @ drop (dim + 2) (stride_bytes op)) ! d *
        shape_' (merge_dims it dim) ! d
      \<longleftrightarrow> stride_bytes op ! (d + 1) = stride_bytes op ! d * shape_' it ! d"
    if op: "op \<in> set (operands_' it)" for op
  proof -
    from m op have len: "length (stride_bytes op) = ndim it"
      by (simp add: strides_match_def list_all_iff)
    with inside d sh show ?thesis by (simp add: nth_append)
  qed
  show ?thesis
    unfolding can_coalesce_def list_all_iff
    using one by (simp add: merge_dims_def)
qed

lemma coalesce_from_maximal:
  "strides_match it \<Longrightarrow> \<forall>d<dim. \<not> can_coalesce it d \<Longrightarrow>
     \<forall>d. d + 1 < ndim (coalesce_from it dim) \<longrightarrow> \<not> can_coalesce (coalesce_from it dim) d"
proof (induction it dim rule: coalesce_from.induct)
  case (1 it dim)
  show ?case
  proof (cases "dim + 1 < ndim it")
    case False
    with "1.prems"(2) show ?thesis by (simp add: coalesce_from.simps [of it dim])
  next
    case inside: True
    show ?thesis
    proof (cases "can_coalesce it dim")
      case True
      have eq: "coalesce_from it dim = coalesce_from (merge_dims it dim) dim"
        using inside True by (simp add: coalesce_from.simps [of it dim])
      have "\<forall>d<dim. \<not> can_coalesce (merge_dims it dim) d"
        using "1.prems" merge_dims_earlier [OF "1.prems"(1) inside] by simp
      from "1.IH"(1) [OF inside True strides_match_merge_dims [OF "1.prems"(1) inside] this]
      show ?thesis by (simp add: eq)
    next
      case False
      have eq: "coalesce_from it dim = coalesce_from it (dim + 1)"
        using inside False by (simp add: coalesce_from.simps [of it dim])
      have "\<forall>d<dim + 1. \<not> can_coalesce it d"
        using "1.prems"(2) False by (auto simp add: less_Suc_eq)
      from "1.IH"(2) [OF inside False "1.prems"(1) this] show ?thesis by (simp add: eq)
    qed
  qed
qed

lemma can_coalesce_flag:
  "can_coalesce (it\<lparr>has_coalesced_dimensions_' := b\<rparr>) d = can_coalesce it d"
  by (simp add: can_coalesce_def)

text \<open>The condition of a merge is the formula of section 4.1 once the dimensions are
  numbered from the outermost, dimension \<open>ndim - 1\<close> of the header being dimension 0
  there.\<close>

lemma can_coalesce_outermost_first:
  assumes m: "strides_match it" and inside: "dim + 1 < ndim it"
  shows "can_coalesce it dim \<longleftrightarrow> spec_can_coalesce (outermost_first it) (ndim it - 2 - dim)"
proof -
  have idx: "ndim it - 2 - dim + 1 = ndim it - 1 - dim" "ndim it - 2 - dim < ndim it"
    "ndim it - 1 - dim < ndim it" "ndim it - Suc (ndim it - 2 - dim) = dim + 1"
    "ndim it - Suc (ndim it - 1 - dim) = dim"
    using inside by simp_all
  have sh: "rev (shape_' it) ! (ndim it - 1 - dim) = shape_' it ! dim"
    using idx by (simp add: rev_nth ndim_def)
  have one: "rev (stride_bytes op) ! (ndim it - 2 - dim) =
        rev (stride_bytes op) ! (ndim it - 2 - dim + 1) * rev (shape_' it) ! (ndim it - 2 - dim + 1)
      \<longleftrightarrow> stride_bytes op ! (dim + 1) = stride_bytes op ! dim * shape_' it ! dim"
    if op: "op \<in> set (operands_' it)" for op
  proof -
    from m op have len: "length (stride_bytes op) = ndim it"
      by (simp add: strides_match_def list_all_iff)
    have "rev (stride_bytes op) ! (ndim it - 2 - dim) = stride_bytes op ! (dim + 1)"
      using idx len by (simp add: rev_nth)
    moreover have "rev (stride_bytes op) ! (ndim it - 1 - dim) = stride_bytes op ! dim"
      using idx len by (simp add: rev_nth)
    ultimately show ?thesis using sh idx(1) by simp
  qed
  show ?thesis
    unfolding can_coalesce_def spec_can_coalesce_def list_all_iff
    using one by (simp add: outermost_first_def)
qed

text \<open>
  Claim C6, as amended. On an iterator whose stride vectors match its shape,
  \<open>coalesce_dimensions\<close> is a sequence of merges, each of an adjacent pair \<open>dim\<close>,
  \<open>dim+1\<close> with \<open>stride[dim+1] == stride[dim] * size[dim]\<close> for every operand of the
  iterator as it is at that merge (dimension 0 being the fastest moving one, as in the
  header; with the dimensions numbered from the outermost this is
  \<open>stride[dim] == stride[dim+1] * size[dim+1]\<close>), and it leaves no adjacent pair that
  qualifies. It keeps the operands and the recorded permutation, and for every operand the
  traversal visits the same (byte offset, element) pairs in the same order after
  coalescing as before.
\<close>

theorem coalescing_is_lossless:
  assumes "strides_match it"
  shows "(\<exists>it1. coalesce_step\<^sup>*\<^sup>* it it1 \<and>
            coalesce_dimensions it = it1\<lparr>has_coalesced_dimensions_' := True\<rparr>) \<and>
    (\<forall>dim. dim + 1 < ndim it \<longrightarrow>
       (can_coalesce it dim \<longleftrightarrow>
        spec_can_coalesce (outermost_first it) (ndim it - 2 - dim))) \<and>
    (\<forall>dim. dim + 1 < ndim (coalesce_dimensions it) \<longrightarrow>
       \<not> can_coalesce (coalesce_dimensions it) dim) \<and>
    ntensors (coalesce_dimensions it) = ntensors it \<and>
    perm_' (coalesce_dimensions it) = perm_' it \<and>
    (\<forall>k<ntensors it.
       visited mem (coalesce_dimensions it) (operands_' (coalesce_dimensions it) ! k)
       = visited mem it (operands_' it ! k))"
proof -
  have "\<exists>it1. coalesce_step\<^sup>*\<^sup>* it it1 \<and>
      coalesce_dimensions it = it1\<lparr>has_coalesced_dimensions_' := True\<rparr>"
    using coalesce_from_steps [of it 0] by (auto simp add: coalesce_dimensions_def)
  moreover have "\<forall>dim. dim + 1 < ndim it \<longrightarrow>
      (can_coalesce it dim \<longleftrightarrow> spec_can_coalesce (outermost_first it) (ndim it - 2 - dim))"
    using can_coalesce_outermost_first [OF assms] by blast
  moreover have "\<forall>dim. dim + 1 < ndim (coalesce_dimensions it) \<longrightarrow>
      \<not> can_coalesce (coalesce_dimensions it) dim"
    using coalesce_from_maximal [OF assms, of 0]
    by (simp add: coalesce_dimensions_def can_coalesce_flag ndim_def)
  ultimately show ?thesis
    using coalesce_from_lossless [OF assms, of 0]
    by (simp add: coalesce_dimensions_def ntensors_def visited_def)
qed

text \<open>Two contiguous operands over the shape \<open>[2,3]\<close> (dimension 0, of size 2, moving
  fastest) are coalesced to one dimension of size 6, and the first operand is visited at
  the offsets 0, 4, ..., 20 before and after; with the second operand broadcast along the
  outer dimension (stride 0) nothing is merged.\<close>

lemma coalesce_ex1:
  "coalesce_dimensions (example_iterator [2, 3] [[4, 8], [8, 16]]) =
     (example_iterator [6] [[4], [8]])\<lparr>has_coalesced_dimensions_' := True\<rparr>"
  by (simp add: coalesce_dimensions_def coalesce_from.simps can_coalesce_def merge_dims_def
      ndim_def example_iterator_def TensorIterator0_def OperandInfo0_def)

lemma coalesce_ex2:
  "coalesce_dimensions (example_iterator [2, 3] [[4, 8], [8, 0]]) =
     (example_iterator [2, 3] [[4, 8], [8, 0]])\<lparr>has_coalesced_dimensions_' := True\<rparr>"
  by (simp add: coalesce_dimensions_def coalesce_from.simps can_coalesce_def merge_dims_def
      ndim_def example_iterator_def TensorIterator0_def OperandInfo0_def)

theorem coalescing_is_lossless_witness:
  "strides_match (example_iterator [2, 3] [[4, 8], [8, 16]]) \<and>
   shape_' (coalesce_dimensions (example_iterator [2, 3] [[4, 8], [8, 16]])) = [6] \<and>
   map stride_bytes (operands_' (coalesce_dimensions (example_iterator [2, 3] [[4, 8], [8, 16]])))
     = [[4], [8]] \<and>
   map fst (visited (\<lambda>a. a) (coalesce_dimensions (example_iterator [2, 3] [[4, 8], [8, 16]]))
       (operands_' (coalesce_dimensions (example_iterator [2, 3] [[4, 8], [8, 16]])) ! 0))
     = [0, 4, 8, 12, 16, 20] \<and>
   map fst (visited (\<lambda>a. a) (example_iterator [2, 3] [[4, 8], [8, 16]])
       (operands_' (example_iterator [2, 3] [[4, 8], [8, 16]]) ! 0))
     = [0, 4, 8, 12, 16, 20] \<and>
   shape_' (coalesce_dimensions (example_iterator [2, 3] [[4, 8], [8, 0]])) = [2, 3]"
  using coalescing_is_lossless [of "example_iterator [2, 3] [[4, 8], [8, 16]]" "\<lambda>a. a"]
    coalescing_is_lossless [of "example_iterator [2, 3] [[4, 8], [8, 0]]" "\<lambda>a. a"]
  by (simp add: coalesce_ex1 coalesce_ex2)
    (simp add: example_iterator_def visited_def strides_match_def ndim_def
      TensorIterator0_def OperandInfo0_def upt_rec [of 0] upt_rec [of 1] upt_rec [of 2]
      upt_rec [of 3] eval_nat_numeral)

text \<open>With the condition as the claim writes it, taken in the header's numbering of the
  dimensions: the operand of strides \<open>[12,4]\<close> over the shape \<open>[2,3]\<close> satisfies it, but
  is visited at 0, 12, 4, 16, 8, 20, which no single dimension of size 6 visits in that
  order, and it is not merged; the operand of strides \<open>[4,8]\<close>, contiguous in its first
  dimension with elements of four bytes, does not satisfy it and is merged.\<close>

theorem claimed_condition_reorders_counterexample:
  "spec_can_coalesce (example_iterator [2, 3] [[12, 4]]) 0 \<and>
   offsets [2, 3] [12, 4] = [0, 12, 4, 16, 8, 20] \<and>
   offsets [6] [4] = [0, 4, 8, 12, 16, 20] \<and>
   offsets [6] [12] = [0, 12, 24, 36, 48, 60] \<and>
   shape_' (coalesce_dimensions (example_iterator [2, 3] [[12, 4]])) = [2, 3] \<and>
   \<not> spec_can_coalesce (example_iterator [2, 3] [[4, 8]]) 0 \<and>
   has_contiguous_first_dim (\<lambda>t. 4) (example_iterator [2, 3] [[4, 8]]) = Inr True \<and>
   shape_' (coalesce_dimensions (example_iterator [2, 3] [[4, 8]])) = [6] \<and>
   map stride_bytes (operands_' (coalesce_dimensions (example_iterator [2, 3] [[4, 8]]))) = [[4]] \<and>
   offsets [2, 3] [4, 8] = [0, 4, 8, 12, 16, 20]"
  by (simp add: coalesce_dimensions_def coalesce_from.simps can_coalesce_def merge_dims_def
      spec_can_coalesce_def has_contiguous_first_dim_def
      ndim_def example_iterator_def TensorIterator0_def OperandInfo0_def
      upt_rec [of 0] upt_rec [of 1] upt_rec [of 2] upt_rec [of 3] upt_rec [of 4]
      upt_rec [of 5] eval_nat_numeral)

section \<open>Properties of splitting for 32-bit indexing\<close>

subsection \<open>Offsets of a safe iterator\<close>






subsection \<open>The dimension that is split\<close>

lemma largest_props:
  "largest b xs \<in> set (b # xs) \<and> (\<forall>x\<in>set (b # xs). fst x \<le> fst (largest b xs))"
proof (induction xs arbitrary: b)
  case Nil
  show ?case by simp
next
  case (Cons x xs)
  from Cons.IH [of "if fst b < fst x then x else b"] show ?case
    by (auto split: if_splits)
qed



text \<open>Whenever the dimension of the largest extent among all dimensions has at least two
  indices, it is the dimension that is split.\<close>

lemma first_largestI:
  "ys = pre @ r # post \<Longrightarrow> \<forall>x\<in>set pre. fst x < fst r \<Longrightarrow> \<forall>x\<in>set post. fst x \<le> fst r \<Longrightarrow>
     first_largest r ys"
  unfolding first_largest_def by blast

lemma first_largest_Cons:
  assumes "first_largest r (b # xs)" and "fst x \<le> fst r" and "r = b \<or> fst x < fst r"
  shows "first_largest r (b # x # xs)"
proof -
  from assms(1) obtain pre post where pp: "b # xs = pre @ r # post"
    "\<forall>y\<in>set pre. fst y < fst r" "\<forall>y\<in>set post. fst y \<le> fst r"
    unfolding first_largest_def by blast
  show ?thesis
  proof (cases pre)
    case Nil
    with pp(1) have "b # x # xs = [] @ r # (x # post)" by simp
    moreover have "\<forall>y\<in>set (x # post). fst y \<le> fst r" using pp(3) assms(2) by simp
    ultimately show ?thesis by (intro first_largestI [of _ "[]" _ "x # post"]) simp_all
  next
    case (Cons p pre')
    with pp(1) have p: "p = b" and xs: "xs = pre' @ r # post" by simp_all
    from pp(2) Cons p have lt: "fst b < fst r" "\<forall>y\<in>set pre'. fst y < fst r" by simp_all
    with assms(3) have "fst x < fst r" by auto
    with lt have "\<forall>y\<in>set (b # x # pre'). fst y < fst r" by simp
    moreover have "b # x # xs = (b # x # pre') @ r # post" using xs by simp
    ultimately show ?thesis using pp(3) by (intro first_largestI [of _ "b # x # pre'" _ post])
  qed
qed

lemma largest_first: "first_largest (largest b xs) (b # xs)"
proof (induction xs arbitrary: b)
  case Nil
  show ?case by (rule first_largestI [of _ "[]" _ "[]"]) simp_all
next
  case (Cons x xs)
  show ?case
  proof (cases "fst b < fst x")
    case True
    define r where "r = largest x xs"
    from Cons.IH [of x] obtain pre post where pp: "x # xs = pre @ r # post"
      "\<forall>y\<in>set pre. fst y < fst r" "\<forall>y\<in>set post. fst y \<le> fst r"
      unfolding first_largest_def r_def by blast
    from largest_props [of x xs] have "fst x \<le> fst r" by (simp add: r_def)
    with True have lt: "fst b < fst r" by simp
    have "b # x # xs = (b # pre) @ r # post" using pp(1) by simp
    moreover have "\<forall>y\<in>set (b # pre). fst y < fst r" using lt pp(2) by simp
    ultimately have "first_largest r (b # x # xs)" using pp(3) by (rule first_largestI)
    moreover have "largest b (x # xs) = r" using True by (simp add: r_def)
    ultimately show ?thesis by simp
  next
    case False
    define r where "r = largest b xs"
    have eq: "largest b (x # xs) = r" using False by (simp add: r_def)
    from Cons.IH [of b] have fl: "first_largest r (b # xs)" by (simp add: r_def)
    from largest_props [of b xs] have "fst b \<le> fst r" by (simp add: r_def)
    with False have "fst x \<le> fst r" by simp
    moreover have "r = b \<or> fst x < fst r"
    proof (cases "r = b")
      case False
      from fl obtain pre post where pp: "b # xs = pre @ r # post"
        "\<forall>y\<in>set pre. fst y < fst r" unfolding first_largest_def by blast
      with False have "b \<in> set pre" by (cases pre) auto
      with pp(2) have "fst b < fst r" by simp
      with \<open>\<not> fst b < fst x\<close> show ?thesis by simp
    qed simp
    ultimately have "first_largest r (b # x # xs)" using fl by (intro first_largest_Cons)
    with eq show ?thesis by simp
  qed
qed

lemma first_largest_unique:
  assumes "first_largest r ys" and "first_largest r' ys"
  shows "r = r'"
proof -
  from assms(1) obtain pre post where a: "ys = pre @ r # post"
    "\<forall>x\<in>set pre. fst x < fst r" "\<forall>x\<in>set post. fst x \<le> fst r"
    unfolding first_largest_def by blast
  from assms(2) obtain pre' post' where b: "ys = pre' @ r' # post'"
    "\<forall>x\<in>set pre'. fst x < fst r'" "\<forall>x\<in>set post'. fst x \<le> fst r'"
    unfolding first_largest_def by blast
  from a(1) b(1) have "pre @ r # post = pre' @ r' # post'" by simp
  then show ?thesis
    using a(2,3) b(2,3)
    by (auto simp add: append_eq_append_conv2 Cons_eq_append_conv append_eq_Cons_conv)
qed

lemma first_largest_filter:
  "first_largest r ys \<Longrightarrow> P r \<Longrightarrow> first_largest r (filter P ys)"
  unfolding first_largest_def
  by (elim exE conjE, rule_tac x = "filter P pre" in exI, rule_tac x = "filter P post" in exI) simp

lemma filter_concat_dims:
  "filter (\<lambda>x. Q (snd x)) (concat (map (\<lambda>d. map (\<lambda>op. (g d op, d)) ops) ds)) =
     concat (map (\<lambda>d. map (\<lambda>op. (g d op, d)) ops) (filter Q ds))"
  by (induction ds) (simp_all add: filter_map comp_def)

lemma extents_filter:
  "extents it = filter (\<lambda>x. 2 \<le> shape_' it ! snd x) (all_extents it)"
  unfolding extents_def all_extents_def
  by (rule filter_concat_dims [symmetric])

lemma get_dim_to_split_largest_extent:
  assumes "2 \<le> shape_' it ! largest_extent_dim it"
  shows "get_dim_to_split it = largest_extent_dim it"
proof (cases "all_extents it")
  case Nil
  then show ?thesis
    by (simp add: get_dim_to_split_def largest_extent_dim_def extents_filter)
next
  case (Cons x xs)
  define r where "r = largest x xs"
  from Cons have dim: "largest_extent_dim it = snd r"
    by (simp add: largest_extent_dim_def r_def)
  from largest_first [of x xs] Cons have "first_largest r (all_extents it)"
    by (simp add: r_def)
  moreover from assms dim have "2 \<le> shape_' it ! snd r" by simp
  ultimately have fl: "first_largest r (extents it)"
    unfolding extents_filter by (intro first_largest_filter)
  then obtain y ys where ex: "extents it = y # ys"
    unfolding first_largest_def by (cases "extents it") auto
  from largest_first [of y ys] ex have "first_largest (largest y ys) (extents it)" by simp
  with fl have "largest y ys = r" by (intro first_largest_unique)
  with ex dim show ?thesis by (simp add: get_dim_to_split_def)
qed

subsection \<open>The two halves\<close>













subsection \<open>The sequence of sub-iterators\<close>





















end
